theory Spec2Isabelle
  imports
    Complex_Main
    "HOL-Library.Char_ord"
    "HOL-Library.List_Lexorder"
    "HOL-Library.Product_Lexorder"
    "HOL-Library.Multiset"
begin

section \<open>Python values, errors and strings\<close>

text \<open>
  Conventions of the embedding.
  \<^item> A Python \<open>float\<close> is modelled as a \<^typ>\<open>real\<close>: the theorems below are about the
    arithmetic the code writes down, not about IEEE rounding, infinities or NaN.
  \<^item> A Python \<open>str\<close> is a \<^typ>\<open>string\<close> of ASCII characters; code points beyond ASCII
    (where \<open>str.upper\<close>, \<open>str.isdigit\<close> and \<open>str.strip\<close> follow the Unicode tables)
    are outside the model.
  \<^item> An exception is a value: a function that can raise returns \<open>py_error + 'a\<close>, with
    \<open>Inl\<close> the exception.
\<close>

datatype py_error = ZeroDivisionError | ValueError

text \<open>Float division: \<open>a / b\<close> raises \<open>ZeroDivisionError\<close> when \<open>b\<close> is zero.\<close>

definition py_div :: "real \<Rightarrow> real \<Rightarrow> py_error + real" where
  "py_div a b = (if b = 0 then Inl ZeroDivisionError else Inr (a / b))"

text \<open>\<open>str.upper\<close> on ASCII: the letters a..z (97..122) move to A..Z.\<close>

definition upper_char :: "char \<Rightarrow> char" where
  "upper_char c =
     (let n = (of_char c :: nat) in if 97 \<le> n \<and> n \<le> 122 then char_of (n - 32) else c)"

definition upper :: "string \<Rightarrow> string" where
  "upper s = map upper_char s"

text \<open>
  \<open>str.strip\<close> on ASCII: the characters \<open>str.isspace\<close> accepts are tab, line feed,
  vertical tab, form feed, carriage return, the separators 28..31 and the space.
\<close>

definition is_space :: "char \<Rightarrow> bool" where
  "is_space c = (let n = (of_char c :: nat) in (9 \<le> n \<and> n \<le> 13) \<or> (28 \<le> n \<and> n \<le> 32))"

definition strip :: "string \<Rightarrow> string" where
  "strip s = rev (dropWhile is_space (rev (dropWhile is_space s)))"

text \<open>\<open>s.split(sep)\<close> for a one-character separator: never an empty list.\<close>

fun split :: "char \<Rightarrow> string \<Rightarrow> string list" where
  "split sep [] = [[]]"
| "split sep (c # cs) =
     (if c = sep then [] # split sep cs
      else (case split sep cs of
              [] \<Rightarrow> [[c]]
            | p # ps \<Rightarrow> (c # p) # ps))"

text \<open>\<open>s.replace(old, "")\<close> for a one-character \<open>old\<close>.\<close>

definition remove_char :: "char \<Rightarrow> string \<Rightarrow> string" where
  "remove_char old s = filter (\<lambda>c. c \<noteq> old) s"

text \<open>\<open>str.isdigit\<close> on ASCII, \<open>int(s)\<close> on a string of digits, and the format \<open>02d\<close>.\<close>

definition is_digit :: "char \<Rightarrow> bool" where
  "is_digit c = (let n = (of_char c :: nat) in 48 \<le> n \<and> n \<le> 57)"

definition isdigit :: "string \<Rightarrow> bool" where
  "isdigit s = (s \<noteq> [] \<and> list_all is_digit s)"

definition digit_val :: "char \<Rightarrow> nat" where
  "digit_val c = of_char c - 48"

definition int_of_digits :: "string \<Rightarrow> nat" where
  "int_of_digits s = foldl (\<lambda>a c. 10 * a + digit_val c) 0 s"

definition digit_char :: "nat \<Rightarrow> char" where
  "digit_char n = char_of (48 + n mod 10)"

fun show_nat :: "nat \<Rightarrow> string" where
  "show_nat n = (if n < 10 then [digit_char n] else show_nat (n div 10) @ [digit_char n])"

declare show_nat.simps [simp del]

definition zfill :: "nat \<Rightarrow> string \<Rightarrow> string" where
  "zfill w s = replicate (w - length s) (CHR ''0'') @ s"

definition fmt_02d :: "nat \<Rightarrow> string" where
  "fmt_02d n = zfill 2 (show_nat n)"

definition fmt_04d :: "nat \<Rightarrow> string" where
  "fmt_04d n = zfill 4 (show_nat n)"

section \<open>models.py\<close>

text \<open>
  A \<open>datetime.date\<close> is (year, month, day); dates compare lexicographically. The
  validators of the fields of \<open>ReportHeader\<close> (three capital letters for
  \<open>base_currency\<close>, at least 0.0001 for \<open>fx_usd_to_mxn\<close>) run when a header is built
  from user input; the record holds any value, as an assignment to the field does.
\<close>

type_synonym date = "nat \<times> nat \<times> nat"

definition date_max :: date where
  "date_max = (9999, 12, 31)"

definition isoformat :: "date \<Rightarrow> string" where
  "isoformat d =
     (case d of (y, m, dd) \<Rightarrow> fmt_04d y @ ''-'' @ fmt_02d m @ ''-'' @ fmt_02d dd)"

record ReportHeader =
  reporter_name :: string
  report_date :: date
  trip_purpose :: string
  client :: string
  visit_type :: string
  base_currency :: string
  fx_usd_to_mxn :: real

record ExpenseEntry =
  entry_id :: string
  merchant_name :: "string option"
  transaction_date :: "date option"
  transaction_time :: "string option"
  total_amount :: "real option"
  currency_code :: string
  payment_method :: "string option"
  category :: "string option"
  entry_notes :: string
  source_name :: "string option"

text \<open>
  A cell of the \<open>Total\<close> column of the data frame: a number, a missing value (NaN or
  None, which \<open>fillna(0)\<close> replaces), or the empty string that \<open>to_row\<close> writes for an
  absent amount (which \<open>astype(float)\<close> rejects).
\<close>

datatype total_cell = Amount real | Missing | Blank

record expense_row =
  row_ID :: string
  row_Merchant :: string
  row_Date :: string
  row_Time :: string
  row_Total :: total_cell
  row_Currency :: string
  row_Payment_Method :: string
  row_Category :: string
  row_Notes :: string
  row_Source :: string

definition or_empty :: "string option \<Rightarrow> string" where
  "or_empty v = (case v of None \<Rightarrow> [] | Some s \<Rightarrow> s)"

definition to_row :: "ExpenseEntry \<Rightarrow> expense_row" where
  "to_row e =
     \<lparr> row_ID = entry_id e,
       row_Merchant = or_empty (merchant_name e),
       row_Date = (case transaction_date e of None \<Rightarrow> [] | Some d \<Rightarrow> isoformat d),
       row_Time = or_empty (transaction_time e),
       row_Total = (case total_amount e of None \<Rightarrow> Blank | Some x \<Rightarrow> Amount x),
       row_Currency = currency_code e,
       row_Payment_Method = or_empty (payment_method e),
       row_Category = or_empty (category e),
       row_Notes = entry_notes e,
       row_Source = or_empty (source_name e) \<rparr>"

section \<open>services/currency.py\<close>

text \<open>
  \<open>convert\<close>: both codes are upper-cased, a code that is not a key of the rate table
  gives the amount back, and so do equal codes; otherwise the amount is divided by the
  source rate and multiplied by the target rate.
\<close>

definition convert :: "real \<Rightarrow> string \<Rightarrow> string \<Rightarrow> (string \<rightharpoonup> real) \<Rightarrow> py_error + real" where
  "convert amount from_ccy to_ccy rates =
     (let from_ccy = upper from_ccy; to_ccy = upper to_ccy in
      case (rates from_ccy, rates to_ccy) of
        (None, _) \<Rightarrow> Inr amount
      | (_, None) \<Rightarrow> Inr amount
      | (Some rate_from, Some rate_to) \<Rightarrow>
          if from_ccy = to_ccy then Inr amount
          else (case py_div amount rate_from of
                  Inl err \<Rightarrow> Inl err
                | Inr base_amount \<Rightarrow> Inr (base_amount * rate_to)))"

section \<open>services/report_pdf.py\<close>

subsection \<open>Ordering of the expense table\<close>

text \<open>
  The sort key of \<open>build_pdf_report\<close>: \<open>(e.transaction_date or date.max,
  e.transaction_time or "99:99")\<close>. A date is always truthy; the empty string is falsy.
\<close>

definition sort_key_of :: "ExpenseEntry \<Rightarrow> date \<times> string" where
  "sort_key_of e =
     ((case transaction_date e of None \<Rightarrow> date_max | Some d \<Rightarrow> d),
      (case transaction_time e of
         None \<Rightarrow> ''99:99''
       | Some t \<Rightarrow> if t = [] then ''99:99'' else t))"

text \<open>\<open>sorted(entries, key=...)\<close> is a stable sort.\<close>

definition sorted_entries :: "ExpenseEntry list \<Rightarrow> ExpenseEntry list" where
  "sorted_entries entries = sort_key sort_key_of entries"

subsection \<open>Rows of the expense table\<close>

text \<open>
  \<open>Paragraph(text, style)\<close> belongs to the reportlab library, not to the repository:
  it parses the markup of its text and raises \<open>ValueError\<close> when the markup is
  malformed. It is the parameter \<open>paragraph\<close>, a function from the text to the paragraph
  object (of a type \<open>'p\<close> left open) or to the exception.

  A cell of the table is a paragraph, a plain text, or an amount rendered with two
  decimals.
\<close>

datatype 'p cell = Para 'p | Text string | Money real

text \<open>
  The markup of the link to the receipt section:
  \<open>f"<link href='#rec{idx}' color='blue'>{label}</link>"\<close>.
\<close>

definition link_markup :: "nat \<Rightarrow> string \<Rightarrow> string" where
  "link_markup idx label =
     ''<link href='' @ [CHR 0x27] @ ''#rec'' @ show_nat idx @ [CHR 0x27] @ '' color=''
       @ [CHR 0x27] @ ''blue'' @ [CHR 0x27] @ ''>'' @ label @ ''</link>''"

text \<open>
  One row of the table, for the entry \<open>e\<close> under the sequence number \<open>idx\<close>. The four
  paragraphs are built in the order of the list; the first one that raises ends the
  function.
\<close>

definition table_row ::
  "(string \<Rightarrow> py_error + 'p) \<Rightarrow> nat \<Rightarrow> ExpenseEntry \<Rightarrow> py_error + 'p cell list" where
  "table_row paragraph idx e =
     (let link = link_markup idx
                   (case source_name e of
                      None \<Rightarrow> ''receipt''
                    | Some s \<Rightarrow> if s = [] then ''receipt'' else s)
      in case paragraph (or_empty (merchant_name e)) of
           Inl err \<Rightarrow> Inl err
         | Inr p_merchant \<Rightarrow>
        (case paragraph (or_empty (payment_method e)) of
           Inl err \<Rightarrow> Inl err
         | Inr p_payment \<Rightarrow>
        (case paragraph (or_empty (category e)) of
           Inl err \<Rightarrow> Inl err
         | Inr p_category \<Rightarrow>
        (case paragraph link of
           Inl err \<Rightarrow> Inl err
         | Inr p_link \<Rightarrow>
             Inr [ Para p_merchant,
                   Text (case transaction_date e of None \<Rightarrow> [] | Some d \<Rightarrow> isoformat d),
                   Text (or_empty (transaction_time e)),
                   (case total_amount e of None \<Rightarrow> Text [] | Some x \<Rightarrow> Money x),
                   Text (currency_code e),
                   Para p_payment,
                   Para p_category,
                   Para p_link ]))))"

text \<open>\<open>enumerate(xs, start)\<close>.\<close>

fun enumerate_from :: "nat \<Rightarrow> 'a list \<Rightarrow> (nat \<times> 'a) list" where
  "enumerate_from start [] = []"
| "enumerate_from start (x # xs) = (start, x) # enumerate_from (Suc start) xs"

text \<open>The loop that appends one row per entry; an exception in a row ends it.\<close>

fun table_rows ::
  "(string \<Rightarrow> py_error + 'p) \<Rightarrow> (nat \<times> ExpenseEntry) list \<Rightarrow> py_error + 'p cell list list" where
  "table_rows paragraph [] = Inr []"
| "table_rows paragraph ((idx, e) # rest) =
     (case table_row paragraph idx e of
        Inl err \<Rightarrow> Inl err
      | Inr row \<Rightarrow>
          (case table_rows paragraph rest of
             Inl err \<Rightarrow> Inl err
           | Inr rows \<Rightarrow> Inr (row # rows)))"

definition header_row :: "'p cell list" where
  "header_row =
     map Text [''Merchant'', ''Date'', ''Time'', ''Total'', ''Currency'', ''Payment'',
               ''Category'', ''Source'']"

definition table_data ::
  "(string \<Rightarrow> py_error + 'p) \<Rightarrow> ExpenseEntry list \<Rightarrow> py_error + 'p cell list list" where
  "table_data paragraph entries =
     (case table_rows paragraph (enumerate_from 1 (sorted_entries entries)) of
        Inl err \<Rightarrow> Inl err
      | Inr rows \<Rightarrow> Inr (header_row # rows))"

subsection \<open>Subtotals and totals\<close>

record totals =
  usd_sub :: real
  mxn_sub :: real
  total_usd :: real
  total_mxn :: real

text \<open>\<open>sum(...)\<close> adds from the left, starting at 0.\<close>

definition py_sum :: "real list \<Rightarrow> real" where
  "py_sum xs = foldl (+) 0 xs"

definition amount_or_zero :: "ExpenseEntry \<Rightarrow> real" where
  "amount_or_zero e = (case total_amount e of None \<Rightarrow> 0 | Some x \<Rightarrow> x)"

definition subtotal :: "string \<Rightarrow> ExpenseEntry list \<Rightarrow> real" where
  "subtotal ccy entries =
     py_sum (map amount_or_zero (filter (\<lambda>e. upper (currency_code e) = ccy) entries))"

definition pdf_totals :: "ExpenseEntry list \<Rightarrow> real \<Rightarrow> py_error + totals" where
  "pdf_totals entries usd_to_mxn =
     (let us = subtotal ''USD'' entries;
          mx = subtotal ''MXN'' entries
      in case (if usd_to_mxn \<noteq> 0 then py_div mx usd_to_mxn else Inr 0) of
           Inl err \<Rightarrow> Inl err
         | Inr contribution \<Rightarrow>
             Inr \<lparr> usd_sub = us, mxn_sub = mx,
                   total_usd = us + contribution,
                   total_mxn = mx + us * usd_to_mxn \<rparr>)"

section \<open>ui/components.py\<close>

text \<open>
  The Totals sheet of \<open>get_download_bytes\<close>. The rows whose \<open>Currency\<close>, upper-cased,
  is the code are selected; \<open>fillna(0)\<close> replaces the missing cells; \<open>astype(float)\<close>
  raises \<open>ValueError\<close> on an empty string; the rate is \<open>header.fx_usd_to_mxn or 1\<close>.
  An empty frame gives the subtotal \<open>0.0\<close>, which is what the sum over no row is.
\<close>

definition fillna0 :: "total_cell \<Rightarrow> total_cell" where
  "fillna0 c = (case c of Missing \<Rightarrow> Amount 0 | _ \<Rightarrow> c)"

fun astype_float :: "total_cell list \<Rightarrow> py_error + real list" where
  "astype_float [] = Inr []"
| "astype_float (c # cs) =
     (case c of
        Amount x \<Rightarrow> (case astype_float cs of Inl err \<Rightarrow> Inl err | Inr xs \<Rightarrow> Inr (x # xs))
      | _ \<Rightarrow> Inl ValueError)"

definition df_subtotal :: "string \<Rightarrow> expense_row list \<Rightarrow> py_error + real" where
  "df_subtotal ccy df =
     (if df = [] then Inr 0
      else case astype_float
                  (map (fillna0 \<circ> row_Total) (filter (\<lambda>r. upper (row_Currency r) = ccy) df)) of
             Inl err \<Rightarrow> Inl err
           | Inr xs \<Rightarrow> Inr (py_sum xs))"

definition or_one :: "real \<Rightarrow> real" where
  "or_one r = (if r \<noteq> 0 then r else 1)"

definition xlsx_totals :: "expense_row list \<Rightarrow> ReportHeader \<Rightarrow> py_error + totals" where
  "xlsx_totals df header =
     (case df_subtotal ''USD'' df of
        Inl err \<Rightarrow> Inl err
      | Inr us \<Rightarrow>
         (case df_subtotal ''MXN'' df of
            Inl err \<Rightarrow> Inl err
          | Inr mx \<Rightarrow>
             (case py_div mx (or_one (fx_usd_to_mxn header)) of
                Inl err \<Rightarrow> Inl err
              | Inr contribution \<Rightarrow>
                  Inr \<lparr> usd_sub = us, mxn_sub = mx,
                        total_usd = us + contribution,
                        total_mxn = mx + us * or_one (fx_usd_to_mxn header) \<rparr>)))"

section \<open>services/openai_vision.py: the field normalizers\<close>

subsection \<open>Raw values\<close>

text \<open>
  A raw field of the decoded JSON object is any Python value. The normalizers look at
  three things only: whether it is \<open>None\<close>, its truth value and its \<open>str()\<close>. So a raw
  value is \<open>None\<close>, a string, or any other object given by its truth value and its
  \<open>str()\<close> (the number \<open>12.5\<close> is \<open>PyOther True ''12.5''\<close>, the number \<open>0\<close> is
  \<open>PyOther False ''0''\<close>).
\<close>

datatype py_value = PyNone | PyStr string | PyOther bool string

fun truthy :: "py_value \<Rightarrow> bool" where
  "truthy PyNone = False"
| "truthy (PyStr s) = (s \<noteq> [])"
| "truthy (PyOther b s) = b"

fun py_str :: "py_value \<Rightarrow> string" where
  "py_str PyNone = ''None''"
| "py_str (PyStr s) = s"
| "py_str (PyOther b s) = s"

text \<open>\<open>try: body except Exception: handler\<close>.\<close>

definition try_except :: "py_error + 'a \<Rightarrow> py_error + 'a \<Rightarrow> py_error + 'a" where
  "try_except body handler = (case body of Inl err \<Rightarrow> handler | Inr x \<Rightarrow> Inr x)"

subsection \<open>Strings, amounts and currency codes\<close>

definition norm_str :: "py_value \<Rightarrow> string option" where
  "norm_str v =
     (if v = PyNone then None
      else let s = strip (py_str v) in if s = [] then None else Some s)"

text \<open>
  \<open>_norm_float\<close>. The built-in \<open>float\<close> belongs to Python, not to the repository: it
  is the parameter \<open>float\<close>, a function from the text to the number or to the exception
  it raises.
\<close>

definition norm_float :: "(string \<Rightarrow> py_error + real) \<Rightarrow> py_value \<Rightarrow> py_error + real option" where
  "norm_float float v =
     (if v = PyNone then Inr None
      else try_except
             (let s = remove_char (CHR '','') (py_str v)
              in case float s of Inl err \<Rightarrow> Inl err | Inr x \<Rightarrow> Inr (Some x))
             (Inr None))"

text \<open>The symbol table \<open>{"$": "USD"}\<close> of \<open>_norm_currency\<close>.\<close>

definition currency_symbols :: "string \<rightharpoonup> string" where
  "currency_symbols = [''$'' \<mapsto> ''USD'']"

definition norm_currency :: "py_value \<Rightarrow> string" where
  "norm_currency v =
     (if \<not> truthy v then ''USD''
      else let s = strip (upper (py_str v))
           in if length s = 1
              then (case currency_symbols s of None \<Rightarrow> ''USD'' | Some code \<Rightarrow> code)
              else s)"

subsection \<open>Dates\<close>

text \<open>
  A \<open>datetime\<close> is a date and a time of day; \<open>dt.date()\<close> is \<open>date_part\<close>. What the time
  of day holds is left open (the type \<open>'t\<close>).
\<close>

datatype 't datetime = DateTime (date_part: date) (time_part: 't)

definition date_formats :: "string list" where
  "date_formats = [''%Y-%m-%d'', ''%d/%m/%Y'', ''%m/%d/%Y'', ''%d-%m-%Y'', ''%m-%d-%Y'']"

text \<open>
  The loop over the fallback formats: the first format that \<open>strptime\<close> accepts gives
  the date, a \<open>ValueError\<close> moves on to the next one, and the end of the list is \<open>None\<close>.
\<close>

fun try_formats ::
  "(string \<Rightarrow> string \<Rightarrow> py_error + 't datetime) \<Rightarrow> string \<Rightarrow> string list \<Rightarrow> date option" where
  "try_formats strptime s [] = None"
| "try_formats strptime s (fmt # fmts) =
     (case strptime s fmt of
        Inr dt \<Rightarrow> Some (date_part dt)
      | Inl err \<Rightarrow> try_formats strptime s fmts)"

text \<open>
  \<open>_norm_date\<close>. \<open>datetime.fromisoformat\<close> and \<open>datetime.strptime\<close> belong to the
  standard library, not to the repository: they are the parameters \<open>fromisoformat\<close>
  and \<open>strptime\<close>.
\<close>

definition norm_date ::
  "(string \<Rightarrow> py_error + 't datetime) \<Rightarrow> (string \<Rightarrow> string \<Rightarrow> py_error + 't datetime)
     \<Rightarrow> py_value \<Rightarrow> date option" where
  "norm_date fromisoformat strptime v =
     (if \<not> truthy v then None
      else case fromisoformat (py_str v) of
             Inr dt \<Rightarrow> Some (date_part dt)
           | Inl err \<Rightarrow> try_formats strptime (py_str v) date_formats)"

subsection \<open>Times\<close>

text \<open>
  \<open>_norm_time\<close>. The method \<open>str.isdigit\<close> and the built-in \<open>int\<close> belong to Python,
  not to the repository: they are the parameters \<open>py_isdigit\<close>, a predicate on the
  text, and \<open>py_int\<close>, a function from the text to the number or to the exception it
  raises (the two do not agree on every text: \<open>int\<close> rejects some that \<open>isdigit\<close>
  accepts). Nothing catches the exception here, so it leaves the function. The
  remainder \<open>%\<close> of Python by a positive number is never negative, as \<open>mod\<close> on \<open>int\<close>.
\<close>

definition norm_time ::
  "(string \<Rightarrow> bool) \<Rightarrow> (string \<Rightarrow> py_error + int) \<Rightarrow> py_value \<Rightarrow> py_error + string option" where
  "norm_time py_isdigit py_int v =
     (if \<not> truthy v then Inr None
      else let s = strip (py_str v);
               parts = split (CHR '':'') s
           in if 2 \<le> length parts \<and> list_all py_isdigit (take 2 parts)
              then (case py_int (parts ! 0) of
                      Inl err \<Rightarrow> Inl err
                    | Inr h \<Rightarrow>
                       (case py_int (parts ! 1) of
                          Inl err \<Rightarrow> Inl err
                        | Inr m \<Rightarrow>
                            (let hh = nat (h mod 24);
                                 mm = nat (m mod 60)
                             in Inr (Some (fmt_02d hh @ '':'' @ fmt_02d mm)))))
              else Inr None)"

section \<open>Reference instances of the library functions\<close>

text \<open>
  Concrete functions to run the code on examples. They follow the documented
  behaviour of the Python and reportlab libraries on the inputs they cover and raise
  \<open>ValueError\<close> elsewhere; the general theorems below do not depend on them.
\<close>

subsection \<open>Calendar\<close>

definition is_leap :: "nat \<Rightarrow> bool" where
  "is_leap y = (y mod 4 = 0 \<and> (y mod 100 \<noteq> 0 \<or> y mod 400 = 0))"

definition days_in_month :: "nat \<Rightarrow> nat \<Rightarrow> nat" where
  "days_in_month y m =
     (if m = 2 then (if is_leap y then 29 else 28)
      else if m = 4 \<or> m = 6 \<or> m = 9 \<or> m = 11 then 30 else 31)"

definition valid_date :: "date \<Rightarrow> bool" where
  "valid_date d =
     (case d of (y, m, dd) \<Rightarrow>
        1 \<le> y \<and> y \<le> 9999 \<and> 1 \<le> m \<and> m \<le> 12 \<and> 1 \<le> dd \<and> dd \<le> days_in_month y m)"

subsection \<open>strptime on the directives Y, m and d\<close>

text \<open>
  \<open>strptime\<close> turns the format into a regular expression, one group of alternatives
  per directive, tried in order: four digits for the year; \<open>1[0-2]\<close>, \<open>0[1-9]\<close>,
  \<open>[1-9]\<close> for the month; \<open>3[01]\<close>, \<open>[12]\d\<close>, \<open>0[1-9]\<close>, \<open>[1-9]\<close>, a space and
  \<open>[1-9]\<close> for the day. Any other character of the format stands for itself. The whole
  text must be used, and the numbers must be a date of the calendar.
\<close>

definition in_range :: "char \<Rightarrow> char \<Rightarrow> char \<Rightarrow> bool" where
  "in_range lo hi c = (lo \<le> c \<and> c \<le> hi)"

fun match_classes :: "(char \<Rightarrow> bool) list \<Rightarrow> string \<Rightarrow> (string \<times> string) option" where
  "match_classes [] s = Some ([], s)"
| "match_classes (p # ps) [] = None"
| "match_classes (p # ps) (c # cs) =
     (if p c
      then (case match_classes ps cs of
              None \<Rightarrow> None
            | Some (m, rest) \<Rightarrow> Some (c # m, rest))
      else None)"

fun first_alt :: "(char \<Rightarrow> bool) list list \<Rightarrow> string \<Rightarrow> (string \<times> string) option" where
  "first_alt [] s = None"
| "first_alt (alt # alts) s =
     (case match_classes alt s of
        Some r \<Rightarrow> Some r
      | None \<Rightarrow> first_alt alts s)"

definition re_Y :: "(char \<Rightarrow> bool) list list" where
  "re_Y = [[is_digit, is_digit, is_digit, is_digit]]"

definition re_m :: "(char \<Rightarrow> bool) list list" where
  "re_m = [[(=) (CHR ''1''), in_range (CHR ''0'') (CHR ''2'')],
           [(=) (CHR ''0''), in_range (CHR ''1'') (CHR ''9'')],
           [in_range (CHR ''1'') (CHR ''9'')]]"

definition re_d :: "(char \<Rightarrow> bool) list list" where
  "re_d = [[(=) (CHR ''3''), in_range (CHR ''0'') (CHR ''1'')],
           [in_range (CHR ''1'') (CHR ''2''), is_digit],
           [(=) (CHR ''0''), in_range (CHR ''1'') (CHR ''9'')],
           [in_range (CHR ''1'') (CHR ''9'')],
           [(=) (CHR '' ''), in_range (CHR ''1'') (CHR ''9'')]]"

datatype fmt_item = Directive char | Literal char

fun parse_format :: "string \<Rightarrow> fmt_item list" where
  "parse_format [] = []"
| "parse_format [c] = [Literal c]"
| "parse_format (c # d # cs) =
     (if c = CHR ''%'' then Directive d # parse_format cs
      else Literal c # parse_format (d # cs))"

fun run_format :: "fmt_item list \<Rightarrow> string \<Rightarrow> date \<Rightarrow> (date \<times> string) option" where
  "run_format [] s acc = Some (acc, s)"
| "run_format (Literal c # items) s acc =
     (case s of
        [] \<Rightarrow> None
      | x # xs \<Rightarrow> if x = c then run_format items xs acc else None)"
| "run_format (Directive c # items) s (y, m, dd) =
     (if c = CHR ''Y'' then
        (case first_alt re_Y s of
           None \<Rightarrow> None
         | Some (txt, rest) \<Rightarrow> run_format items rest (int_of_digits txt, m, dd))
      else if c = CHR ''m'' then
        (case first_alt re_m s of
           None \<Rightarrow> None
         | Some (txt, rest) \<Rightarrow> run_format items rest (y, int_of_digits txt, dd))
      else if c = CHR ''d'' then
        (case first_alt re_d s of
           None \<Rightarrow> None
         | Some (txt, rest) \<Rightarrow> run_format items rest (y, m, int_of_digits (strip txt)))
      else None)"

definition strptime_ref :: "string \<Rightarrow> string \<Rightarrow> py_error + (nat \<times> nat \<times> nat) datetime" where
  "strptime_ref s fmt =
     (case run_format (parse_format fmt) s (1900, 1, 1) of
        None \<Rightarrow> Inl ValueError
      | Some (d, rest) \<Rightarrow>
          if rest = [] \<and> valid_date d then Inr (DateTime d (0, 0, 0)) else Inl ValueError)"

subsection \<open>fromisoformat on YYYY-MM-DD and YYYY-MM-DD*HH[:MM[:SS]]\<close>

text \<open>
  Ten characters of date, then nothing, or one separator character of any kind and a
  time of day of one to three two-digit fields. Fractions of a second and UTC offsets are not
  covered.
\<close>

definition iso_date :: "string \<Rightarrow> date option" where
  "iso_date s =
     (if length s = 10 \<and> list_all is_digit (take 4 s) \<and> s ! 4 = CHR ''-''
         \<and> list_all is_digit (take 2 (drop 5 s)) \<and> s ! 7 = CHR ''-''
         \<and> list_all is_digit (drop 8 s)
      then let d = (int_of_digits (take 4 s), int_of_digits (take 2 (drop 5 s)),
                    int_of_digits (drop 8 s))
           in if valid_date d then Some d else None
      else None)"

definition two_digits :: "string \<Rightarrow> nat option" where
  "two_digits s = (if length s = 2 \<and> list_all is_digit s then Some (int_of_digits s) else None)"

definition iso_time :: "string \<Rightarrow> (nat \<times> nat \<times> nat) option" where
  "iso_time s =
     (case map two_digits (split (CHR '':'') s) of
        [Some h] \<Rightarrow> if h < 24 then Some (h, 0, 0) else None
      | [Some h, Some m] \<Rightarrow> if h < 24 \<and> m < 60 then Some (h, m, 0) else None
      | [Some h, Some m, Some sec] \<Rightarrow>
          if h < 24 \<and> m < 60 \<and> sec < 60 then Some (h, m, sec) else None
      | _ \<Rightarrow> None)"

definition fromisoformat_ref :: "string \<Rightarrow> py_error + (nat \<times> nat \<times> nat) datetime" where
  "fromisoformat_ref s =
     (case iso_date (take 10 s) of
        None \<Rightarrow> Inl ValueError
      | Some d \<Rightarrow>
          if length s = 10 then Inr (DateTime d (0, 0, 0))
          else (case iso_time (drop 11 s) of
                  None \<Rightarrow> Inl ValueError
                | Some t \<Rightarrow> Inr (DateTime d t)))"

subsection \<open>float on plain decimal literals\<close>

text \<open>
  Surrounding whitespace (tab to carriage return, and the space), an optional sign, digits with at most one point and at least
  one digit. Exponents, underscores, \<open>inf\<close> and \<open>nan\<close> are not covered.
\<close>

definition decimal_value :: "string \<Rightarrow> real option" where
  "decimal_value s =
     (case split (CHR ''.'') s of
        [ip] \<Rightarrow> if isdigit ip then Some (real (int_of_digits ip)) else None
      | [ip, fp] \<Rightarrow>
          if (ip \<noteq> [] \<or> fp \<noteq> []) \<and> list_all is_digit ip \<and> list_all is_digit fp
          then Some (real (int_of_digits ip) + real (int_of_digits fp) / 10 ^ length fp)
          else None
      | _ \<Rightarrow> None)"

definition is_float_space :: "char \<Rightarrow> bool" where
  "is_float_space c = (let n = (of_char c :: nat) in (9 \<le> n \<and> n \<le> 13) \<or> n = 32)"

definition float_ref :: "string \<Rightarrow> py_error + real" where
  "float_ref text =
     (let s = rev (dropWhile is_float_space (rev (dropWhile is_float_space text)));
          neg = (s \<noteq> [] \<and> hd s = CHR ''-'');
          body = (if s \<noteq> [] \<and> (hd s = CHR ''-'' \<or> hd s = CHR ''+'') then tl s else s)
      in case decimal_value body of
           None \<Rightarrow> Inl ValueError
         | Some x \<Rightarrow> Inr (if neg then - x else x))"

subsection \<open>int on strings of digits\<close>

text \<open>
  The value of a string of ASCII digits; from Python 3.11 on, a string of more than
  4300 digits raises \<open>ValueError\<close>. Signs, surrounding whitespace and underscores are
  not covered.
\<close>

definition int_max_str_digits :: nat where
  "int_max_str_digits = 4300"

definition int_ref :: "string \<Rightarrow> py_error + int" where
  "int_ref s =
     (if isdigit s \<and> length s \<le> int_max_str_digits then Inr (int (int_of_digits s))
      else Inl ValueError)"

subsection \<open>Paragraph on plain text and on the link of a row\<close>

text \<open>
  A text with no \<open><\<close> and no \<open>&\<close> has no markup to parse and is accepted; so is
  the link of a row whose label is such a text. Any other markup is not covered. The
  paragraph object is the text itself.
\<close>

fun strip_prefix :: "string \<Rightarrow> string \<Rightarrow> string option" where
  "strip_prefix [] s = Some s"
| "strip_prefix (p # ps) [] = None"
| "strip_prefix (p # ps) (c # cs) = (if p = c then strip_prefix ps cs else None)"

definition plain_text :: "string \<Rightarrow> bool" where
  "plain_text s = (\<not> List.member s (CHR ''<'') \<and> \<not> List.member s (CHR ''&''))"

definition is_row_link :: "string \<Rightarrow> bool" where
  "is_row_link text =
     (case strip_prefix (''<link href='' @ [CHR 0x27] @ ''#rec'') text of
        None \<Rightarrow> False
      | Some r \<Rightarrow>
         (case strip_prefix ([CHR 0x27] @ '' color='' @ [CHR 0x27] @ ''blue'' @ [CHR 0x27] @ ''>'')
                 (dropWhile is_digit r) of
            None \<Rightarrow> False
          | Some body \<Rightarrow>
             (case strip_prefix (rev ''</link>'') (rev body) of
                None \<Rightarrow> False
              | Some label \<Rightarrow> plain_text label)))"

definition paragraph_ref :: "string \<Rightarrow> py_error + string" where
  "paragraph_ref text =
     (if plain_text text \<or> is_row_link text then Inr text else Inl ValueError)"

section \<open>Example data\<close>

definition entry_of :: "date option \<Rightarrow> string option \<Rightarrow> real option \<Rightarrow> string \<Rightarrow> ExpenseEntry" where
  "entry_of d t a ccy =
     \<lparr> entry_id = ''id'', merchant_name = None, transaction_date = d,
       transaction_time = t, total_amount = a, currency_code = ccy,
       payment_method = None, category = None, entry_notes = [], source_name = None \<rparr>"

definition header_of :: "real \<Rightarrow> ReportHeader" where
  "header_of fx =
     \<lparr> reporter_name = [], report_date = (2024, 1, 1), trip_purpose = [], client = [],
       visit_type = [], base_currency = ''USD'', fx_usd_to_mxn = fx \<rparr>"

section \<open>Currency conversion\<close>

lemma upper_USD: "upper ''USD'' = ''USD''"
  by (simp add: upper_def upper_char_def)

lemma upper_MXN: "upper ''MXN'' = ''MXN''"
  by (simp add: upper_def upper_char_def)

text \<open>A code that is not a key of the rate table, once upper-cased, gives the amount back.\<close>

lemma convert_unknown_code:
  "rates (upper from_ccy) = None \<or> rates (upper to_ccy) = None
     \<Longrightarrow> convert amount from_ccy to_ccy rates = Inr amount"
  by (auto simp: convert_def Let_def split: option.splits)

lemma convert_same_code:
  "upper from_ccy = upper to_ccy \<Longrightarrow> convert amount from_ccy to_ccy rates = Inr amount"
  by (auto simp: convert_def Let_def split: option.splits)

text \<open>
  C1. The claim: an unknown source or target code, and a source rate of zero, all give
  the amount back without an error. The code has no guard for a rate of zero: with
  both codes in the table and the rate of the source \<open>0.0\<close>, the division raises
  \<open>ZeroDivisionError\<close>. Here \<open>convert(100.0, "MXN", "USD", {"USD": 1.0, "MXN": 0.0})\<close>.
\<close>

theorem convert_zero_rate_raises:
  "convert 100 ''MXN'' ''USD'' [''USD'' \<mapsto> 1, ''MXN'' \<mapsto> 0] = Inl ZeroDivisionError"
  by (simp add: convert_def upper_USD upper_MXN py_div_def)

section \<open>The aggregator\<close>

text \<open>
  C2. With the rate 18 and the two entries 100 USD and 180 MXN, whatever their other
  fields, the subtotals are 100 and 180 and the totals are 110 USD and 1980 MXN.
\<close>

theorem pdf_totals_scenario:
  assumes "total_amount e1 = Some 100" and "currency_code e1 = ''USD''"
    and "total_amount e2 = Some 180" and "currency_code e2 = ''MXN''"
  shows "pdf_totals [e1, e2] 18 =
           Inr \<lparr> usd_sub = 100, mxn_sub = 180, total_usd = 110, total_mxn = 1980 \<rparr>"
  using assms
  by (simp add: pdf_totals_def subtotal_def py_sum_def amount_or_zero_def
        upper_USD upper_MXN py_div_def)

theorem pdf_totals_scenario_witness:
  "pdf_totals [entry_of None None (Some 100) ''USD'', entry_of None None (Some 180) ''MXN''] 18 =
     Inr \<lparr> usd_sub = 100, mxn_sub = 180, total_usd = 110, total_mxn = 1980 \<rparr>"
  using pdf_totals_scenario
          [of "entry_of None None (Some 100) ''USD''" "entry_of None None (Some 180) ''MXN''"]
  by (simp add: entry_of_def)

subsection \<open>The rules of the four values\<close>

lemma foldl_plus: "foldl (+) a xs = a + sum_list (xs :: real list)"
  by (induction xs arbitrary: a) auto

lemma py_sum_sum_list: "py_sum xs = sum_list xs"
  by (simp add: py_sum_def foldl_plus)

lemma subtotal_Nil: "subtotal ccy [] = 0"
  by (simp add: subtotal_def py_sum_sum_list)

lemma subtotal_Cons:
  "subtotal ccy (e # es) =
     (if upper (currency_code e) = ccy then amount_or_zero e else 0) + subtotal ccy es"
  by (simp add: subtotal_def py_sum_sum_list)


lemma pdf_totals_eq:
  "pdf_totals entries rate =
     Inr \<lparr> usd_sub = subtotal ''USD'' entries, mxn_sub = subtotal ''MXN'' entries,
           total_usd = subtotal ''USD'' entries
                         + (if rate = 0 then 0 else subtotal ''MXN'' entries / rate),
           total_mxn = subtotal ''MXN'' entries + subtotal ''USD'' entries * rate \<rparr>"
  by (simp add: pdf_totals_def Let_def py_div_def)

lemma astype_float_amounts: "astype_float (map Amount xs) = Inr xs"
  by (induction xs) auto

text \<open>
  On the rows that \<open>to_row\<close> makes of the entries, the subtotal of the sheet is the
  subtotal of the report, as long as every selected entry has an amount.
\<close>

lemma df_subtotal_to_row:
  assumes "\<forall>e\<in>set entries. upper (currency_code e) = ccy \<longrightarrow> total_amount e \<noteq> None"
  shows "df_subtotal ccy (map to_row entries) = Inr (subtotal ccy entries)"
proof -
  let ?sel = "filter (\<lambda>e. upper (currency_code e) = ccy) entries"
  have sel: "filter (\<lambda>r. upper (row_Currency r) = ccy) (map to_row entries) = map to_row ?sel"
    by (simp add: filter_map o_def to_row_def)
  have cells: "map (fillna0 \<circ> row_Total) (map to_row ?sel) = map Amount (map amount_or_zero ?sel)"
    using assms by (auto simp: to_row_def fillna0_def amount_or_zero_def)
  show ?thesis
  proof (cases "entries = []")
    case True
    then show ?thesis by (simp add: df_subtotal_def subtotal_Nil)
  next
    case False
    then show ?thesis
      by (simp add: df_subtotal_def sel cells astype_float_amounts subtotal_def del: map_map)
  qed
qed

text \<open>
  With a rate other than 0, and an amount in every USD or MXN entry, the Totals sheet
  on the rows of the entries has the four values of the report. At the rate 0, which
  the validator of \<open>ReportHeader\<close> excludes, the sheet takes the rate to be 1.
\<close>

lemma totals_sheet_agrees:
  assumes "\<forall>e\<in>set entries. upper (currency_code e) \<in> {''USD'', ''MXN''} \<longrightarrow> total_amount e \<noteq> None"
  shows "xlsx_totals (map to_row entries) header =
           (if fx_usd_to_mxn header \<noteq> 0 then pdf_totals entries (fx_usd_to_mxn header)
            else Inr \<lparr> usd_sub = subtotal ''USD'' entries,
                       mxn_sub = subtotal ''MXN'' entries,
                       total_usd = subtotal ''USD'' entries + subtotal ''MXN'' entries,
                       total_mxn = subtotal ''MXN'' entries + subtotal ''USD'' entries \<rparr>)"
proof -
  have us: "df_subtotal ''USD'' (map to_row entries) = Inr (subtotal ''USD'' entries)"
    using assms by (intro df_subtotal_to_row) auto
  have mx: "df_subtotal ''MXN'' (map to_row entries) = Inr (subtotal ''MXN'' entries)"
    using assms by (intro df_subtotal_to_row) auto
  show ?thesis
    by (simp add: xlsx_totals_def us mx or_one_def py_div_def pdf_totals_eq)
qed

text \<open>
  A selected row with an absent amount makes the sheet raise, whatever the rate:
  \<open>to_row\<close> writes the empty string, \<open>fillna(0)\<close> leaves it, \<open>astype(float)\<close> rejects it.
\<close>

lemma df_subtotal_blank_raises:
  assumes "e \<in> set entries" and "upper (currency_code e) = ccy" and "total_amount e = None"
  shows "df_subtotal ccy (map to_row entries) = Inl ValueError"
proof -
  have raises: "astype_float cs = Inl ValueError" if "Blank \<in> set cs" for cs
    using that by (induction cs) (auto split: total_cell.splits sum.splits)
  let ?cells = "map (fillna0 \<circ> row_Total)
                  (filter (\<lambda>r. upper (row_Currency r) = ccy) (map to_row entries))"
  have "to_row e \<in> set (filter (\<lambda>r. upper (row_Currency r) = ccy) (map to_row entries))"
    using assms(1,2) by (auto simp: to_row_def)
  moreover have "(fillna0 \<circ> row_Total) (to_row e) = Blank"
    using assms(3) by (simp add: to_row_def fillna0_def)
  ultimately have "Blank \<in> set ?cells"
    by (metis image_eqI list.set_map)
  from raises[OF this] assms(1) show ?thesis
    by (auto simp: df_subtotal_def)
qed

text \<open>
  C3. The report computes total-USD = subtotal-USD + subtotal-MXN / rate, a rate of 0
  contributing 0, and total-MXN = subtotal-MXN + subtotal-USD * rate, and raises
  nothing (\<open>pdf_totals_eq\<close>). The Totals sheet does not compute the same values on the
  same entries: on a USD entry without an amount and an MXN entry of 180, at the rate
  18, the report has the subtotals 0 and 180 and the totals 10 and 180, and the sheet
  raises \<open>ValueError\<close>.
\<close>

theorem totals_sheet_absent_amount_raises:
  "pdf_totals [entry_of None None None ''USD'', entry_of None None (Some 180) ''MXN''] 18 =
     Inr \<lparr> usd_sub = 0, mxn_sub = 180, total_usd = 10, total_mxn = 180 \<rparr>
   \<and> xlsx_totals (map to_row [entry_of None None None ''USD'',
                               entry_of None None (Some 180) ''MXN'']) (header_of 18) =
     Inl ValueError"
  by (simp add: pdf_totals_eq xlsx_totals_def df_subtotal_def to_row_def fillna0_def
        entry_of_def header_of_def subtotal_Cons subtotal_Nil amount_or_zero_def
        upper_USD upper_MXN)

section \<open>The expense table\<close>

lemma set_enumerate_from:
  "x \<in> set xs \<Longrightarrow>
     \<exists>idx. start \<le> idx \<and> idx < start + length xs \<and> (idx, x) \<in> set (enumerate_from start xs)"
proof (induction xs arbitrary: start)
  case Nil
  then show ?case by simp
next
  case (Cons a xs)
  show ?case
  proof (cases "x = a")
    case True
    then show ?thesis by (intro exI[of _ start]) simp
  next
    case False
    with Cons.prems have "x \<in> set xs" by simp
    from Cons.IH[OF this, of "Suc start"] obtain idx where
      "Suc start \<le> idx" "idx < Suc start + length xs"
      "(idx, x) \<in> set (enumerate_from (Suc start) xs)" by blast
    then show ?thesis by (intro exI[of _ idx]) simp
  qed
qed


lemma set_sorted_entries: "set (sorted_entries es) = set es"
  by (simp add: sorted_entries_def)

lemma length_sorted_entries: "length (sorted_entries es) = length es"
  by (simp add: sorted_entries_def)




text \<open>A paragraph that raises on a text of one entry leaves no table at all.\<close>

lemma table_rows_aborts:
  assumes "(idx, e) \<in> set ies" and "paragraph (or_empty (merchant_name e)) = Inl err"
  shows "isl (table_rows paragraph ies)"
  using assms
proof (induction ies)
  case Nil
  then show ?case by simp
next
  case (Cons ie ies)
  show ?case
  proof (cases "ie = (idx, e)")
    case True
    with Cons.prems(2) show ?thesis by (simp add: table_row_def)
  next
    case False
    with Cons.prems have "isl (table_rows paragraph ies)" by (intro Cons.IH) auto
    then show ?thesis by (cases ie) (auto simp: isl_def split: sum.splits)
  qed
qed

lemma table_data_aborts:
  assumes "e \<in> set entries" and "paragraph (or_empty (merchant_name e)) = Inl err"
  shows "isl (table_data paragraph entries)"
proof -
  from assms(1) have "e \<in> set (sorted_entries entries)" by (simp add: set_sorted_entries)
  from set_enumerate_from[OF this, of 1] obtain idx where
    mem: "(idx, e) \<in> set (enumerate_from 1 (sorted_entries entries))" by blast
  have "isl (table_rows paragraph (enumerate_from 1 (sorted_entries entries)))"
    using mem assms(2) by (rule table_rows_aborts)
  then show ?thesis
    by (auto simp: table_data_def isl_def)
qed

lemma table_data_malformed_markup:
  "table_data paragraph_ref [(entry_of None None (Some 100) ''USD'')\<lparr>merchant_name := Some ''a<b''\<rparr>]
     = Inl ValueError"
proof -
  have "paragraph_ref ''a<b'' = Inl ValueError" by code_simp
  then show ?thesis
    by (simp add: table_data_def sorted_entries_def table_row_def entry_of_def or_empty_def)
qed



lemma key_of_entry:
  "sort_key_of (entry_of d t a c) =
     ((case d of None \<Rightarrow> date_max | Some x \<Rightarrow> x),
      (case t of None \<Rightarrow> ''99:99'' | Some x \<Rightarrow> if x = [] then ''99:99'' else x))"
  by (simp add: sort_key_of_def entry_of_def)


subsection \<open>The order of the rows\<close>

lemma sorted_keys: "sorted (map sort_key_of (sorted_entries es))"
  by (simp add: sorted_entries_def)

lemma mset_sorted_entries: "mset (sorted_entries es) = mset es"
  by (simp add: sorted_entries_def)

lemma stable_sorted_entries:
  "filter (\<lambda>e. sort_key_of e = k) (sorted_entries es) = filter (\<lambda>e. sort_key_of e = k) es"
  by (simp add: sorted_entries_def sort_key_stable)

lemma key_le_nth:
  assumes "i \<le> j" "j < length es"
  shows "sort_key_of (sorted_entries es ! i) \<le> sort_key_of (sorted_entries es ! j)"
proof -
  have len: "j < length (map sort_key_of (sorted_entries es))"
    using assms by (simp add: length_sorted_entries)
  have "map sort_key_of (sorted_entries es) ! i \<le> map sort_key_of (sorted_entries es) ! j"
    using sorted_keys assms(1) len by (rule sorted_nth_mono)
  then show ?thesis using assms by (simp add: length_sorted_entries)
qed

lemma fst_lex_mono: "p \<le> q \<Longrightarrow> fst p \<le> fst (q :: 'a::order \<times> 'b::order)"
  by (cases p, cases q) (auto simp: less_eq_prod_def)

lemma undated_after_dated:
  assumes "i < length es" "j < length es"
    and "transaction_date (sorted_entries es ! i) = None"
    and "transaction_date (sorted_entries es ! j) = Some d" and "d < date_max"
  shows "j < i"
proof (rule ccontr)
  assume "\<not> j < i"
  then have "i \<le> j" by simp
  from fst_lex_mono[OF key_le_nth[OF this assms(2)]] assms(3,4)
  have "date_max \<le> d" by (simp add: sort_key_of_def)
  with assms(5) show False by simp
qed

lemma of_char_digit_char: "of_char (digit_char n) = (48 + n mod 10 :: nat)"
proof -
  have "48 + n mod 10 < 256" by (simp add: less_Suc_eq_le)
  then show ?thesis by (simp add: digit_char_def)
qed

lemma digit_char_0: "digit_char 0 = CHR ''0''"
  by code_simp

lemma fmt_02d_small:
  assumes "n < 100"
  shows "fmt_02d n = [digit_char (n div 10), digit_char n]"
proof (cases "n < 10")
  case True
  then show ?thesis
    by (simp add: fmt_02d_def zfill_def show_nat.simps[of n] digit_char_0)
next
  case False
  moreover from assms have "n div 10 < 10" by simp
  ultimately show ?thesis
    by (simp add: fmt_02d_def zfill_def show_nat.simps[of n] show_nat.simps[of "n div 10"])
qed

lemma sentinel_greater:
  assumes "h < 24" "m < 60"
  shows "fmt_02d h @ '':'' @ fmt_02d m < ''99:99''"
proof -
  have "h div 10 < 9" using assms by simp
  then have "digit_char (h div 10) < CHR ''9''"
    by (simp add: less_char_def of_char_digit_char)
  then show ?thesis using assms by (simp add: fmt_02d_small)
qed

lemma key_less_pos:
  assumes "i < length es" and "j < length es"
    and "sort_key_of (sorted_entries es ! j) < sort_key_of (sorted_entries es ! i)"
  shows "j < i"
proof (rule ccontr)
  assume "\<not> j < i"
  then have "i \<le> j" by simp
  from key_le_nth[OF this assms(2)] assms(3) show False by simp
qed

lemma lex_le_iff:
  "(p :: 'a::order \<times> 'b::order) \<le> q \<Longrightarrow> fst p \<le> fst q \<and> (fst p = fst q \<longrightarrow> snd p \<le> snd q)"
  by (cases p, cases q) (auto simp: less_eq_prod_def)

lemma key_fst:
  "fst (sort_key_of e) = (case transaction_date e of None \<Rightarrow> (9999, 12, 31) | Some d \<Rightarrow> d)"
  by (cases "transaction_date e") (simp_all add: sort_key_of_def date_max_def)

lemma key_snd:
  "snd (sort_key_of e) =
     (case transaction_time e of None \<Rightarrow> ''99:99'' | Some t \<Rightarrow> if t = [] then ''99:99'' else t)"
  by (simp add: sort_key_of_def)

lemma lex_less_iff:
  "(p :: 'a::order \<times> 'b::order) < q \<longleftrightarrow> fst p < fst q \<or> fst p = fst q \<and> snd p < snd q"
  by (cases p, cases q) (auto simp: less_prod_def)

text \<open>
  C5, as the code has it. The sorted list is a rearrangement of the entries. Of two
  entries, the one placed first has the date that is not greater, an absent date
  counting as 9999-12-31; when these dates are equal it has the time that is not
  greater, an absent or empty time counting as \<open>"99:99"\<close>. So: an entry without a date
  comes after every entry dated before 9999-12-31, whatever the times; of two dated
  entries the earlier date comes first; on the same date (or both without one) the
  smaller time comes first, and an entry without a time comes after every time below
  \<open>"99:99"\<close>, which every \<open>HH:MM\<close> with \<open>HH\<close> below 24 and \<open>MM\<close> below 60 is.
\<close>

theorem sorted_entries_order:
  fixes es :: "ExpenseEntry list"
  defines "S \<equiv> sorted_entries es"
  shows
  "mset S = mset es
   \<and> (\<forall>i j. i \<le> j \<and> j < length es \<longrightarrow>
         (case transaction_date (S ! i) of None \<Rightarrow> (9999, 12, 31) | Some d \<Rightarrow> d)
           \<le> (case transaction_date (S ! j) of None \<Rightarrow> (9999, 12, 31) | Some d \<Rightarrow> d)
         \<and> ((case transaction_date (S ! i) of None \<Rightarrow> (9999, 12, 31) | Some d \<Rightarrow> d)
              = (case transaction_date (S ! j) of None \<Rightarrow> (9999, 12, 31) | Some d \<Rightarrow> d)
            \<longrightarrow> (case transaction_time (S ! i) of
                   None \<Rightarrow> ''99:99'' | Some t \<Rightarrow> if t = [] then ''99:99'' else t)
                 \<le> (case transaction_time (S ! j) of
                      None \<Rightarrow> ''99:99'' | Some t \<Rightarrow> if t = [] then ''99:99'' else t)))
   \<and> (\<forall>i j d. i < length es \<and> j < length es
         \<and> transaction_date (S ! i) = None
         \<and> transaction_date (S ! j) = Some d \<and> d < (9999, 12, 31) \<longrightarrow> j < i)
   \<and> (\<forall>i j di dj. i < length es \<and> j < length es
         \<and> transaction_date (S ! i) = Some di
         \<and> transaction_date (S ! j) = Some dj \<and> dj < di \<longrightarrow> j < i)
   \<and> (\<forall>i j ti tj. i < length es \<and> j < length es
         \<and> transaction_date (S ! i) = transaction_date (S ! j)
         \<and> transaction_time (S ! i) = Some ti \<and> ti \<noteq> []
         \<and> transaction_time (S ! j) = Some tj \<and> tj \<noteq> [] \<and> tj < ti \<longrightarrow> j < i)
   \<and> (\<forall>i j tj. i < length es \<and> j < length es
         \<and> transaction_date (S ! i) = transaction_date (S ! j)
         \<and> (transaction_time (S ! i) = None \<or> transaction_time (S ! i) = Some [])
         \<and> transaction_time (S ! j) = Some tj \<and> tj \<noteq> [] \<and> tj < ''99:99'' \<longrightarrow> j < i)
   \<and> (\<forall>h m. h < 24 \<and> m < 60 \<longrightarrow> fmt_02d h @ '':'' @ fmt_02d m < ''99:99'')"
proof -
  have perm: "mset S = mset es"
    by (simp add: S_def mset_sorted_entries)
  have asc: "\<forall>i j. i \<le> j \<and> j < length es \<longrightarrow>
         (case transaction_date (S ! i) of None \<Rightarrow> (9999, 12, 31) | Some d \<Rightarrow> d)
           \<le> (case transaction_date (S ! j) of None \<Rightarrow> (9999, 12, 31) | Some d \<Rightarrow> d)
         \<and> ((case transaction_date (S ! i) of None \<Rightarrow> (9999, 12, 31) | Some d \<Rightarrow> d)
              = (case transaction_date (S ! j) of None \<Rightarrow> (9999, 12, 31) | Some d \<Rightarrow> d)
            \<longrightarrow> (case transaction_time (S ! i) of
                   None \<Rightarrow> ''99:99'' | Some t \<Rightarrow> if t = [] then ''99:99'' else t)
                 \<le> (case transaction_time (S ! j) of
                      None \<Rightarrow> ''99:99'' | Some t \<Rightarrow> if t = [] then ''99:99'' else t))"
  proof (intro allI impI)
    fix i j assume "i \<le> j \<and> j < length es"
    then have "sort_key_of (S ! i) \<le> sort_key_of (S ! j)"
      by (simp add: S_def key_le_nth)
    from lex_le_iff[OF this, unfolded key_fst key_snd]
    show "(case transaction_date (S ! i) of None \<Rightarrow> (9999, 12, 31) | Some d \<Rightarrow> d)
           \<le> (case transaction_date (S ! j) of None \<Rightarrow> (9999, 12, 31) | Some d \<Rightarrow> d)
         \<and> ((case transaction_date (S ! i) of None \<Rightarrow> (9999, 12, 31) | Some d \<Rightarrow> d)
              = (case transaction_date (S ! j) of None \<Rightarrow> (9999, 12, 31) | Some d \<Rightarrow> d)
            \<longrightarrow> (case transaction_time (S ! i) of
                   None \<Rightarrow> ''99:99'' | Some t \<Rightarrow> if t = [] then ''99:99'' else t)
                 \<le> (case transaction_time (S ! j) of
                      None \<Rightarrow> ''99:99'' | Some t \<Rightarrow> if t = [] then ''99:99'' else t))"
      .
  qed
  have undated: "\<forall>i j d. i < length es \<and> j < length es
         \<and> transaction_date (S ! i) = None
         \<and> transaction_date (S ! j) = Some d \<and> d < (9999, 12, 31) \<longrightarrow> j < i"
  proof (intro allI impI)
    fix i j d
    assume h: "i < length es \<and> j < length es
         \<and> transaction_date (S ! i) = None
         \<and> transaction_date (S ! j) = Some d \<and> d < (9999, 12, 31)"
    then have "sort_key_of (S ! j) < sort_key_of (S ! i)"
      by (simp add: lex_less_iff key_fst)
    with h show "j < i" using key_less_pos[of i es j] by (simp add: S_def)
  qed
  have dated: "\<forall>i j di dj. i < length es \<and> j < length es
         \<and> transaction_date (S ! i) = Some di
         \<and> transaction_date (S ! j) = Some dj \<and> dj < di \<longrightarrow> j < i"
  proof (intro allI impI)
    fix i j di dj
    assume h: "i < length es \<and> j < length es
         \<and> transaction_date (S ! i) = Some di
         \<and> transaction_date (S ! j) = Some dj \<and> dj < di"
    then have "sort_key_of (S ! j) < sort_key_of (S ! i)"
      by (simp add: lex_less_iff key_fst)
    with h show "j < i" using key_less_pos[of i es j] by (simp add: S_def)
  qed
  have timed: "\<forall>i j ti tj. i < length es \<and> j < length es
         \<and> transaction_date (S ! i) = transaction_date (S ! j)
         \<and> transaction_time (S ! i) = Some ti \<and> ti \<noteq> []
         \<and> transaction_time (S ! j) = Some tj \<and> tj \<noteq> [] \<and> tj < ti \<longrightarrow> j < i"
  proof (intro allI impI)
    fix i j ti tj
    assume h: "i < length es \<and> j < length es
         \<and> transaction_date (S ! i) = transaction_date (S ! j)
         \<and> transaction_time (S ! i) = Some ti \<and> ti \<noteq> []
         \<and> transaction_time (S ! j) = Some tj \<and> tj \<noteq> [] \<and> tj < ti"
    then have "sort_key_of (S ! j) < sort_key_of (S ! i)"
      by (simp add: lex_less_iff key_fst key_snd)
    with h show "j < i" using key_less_pos[of i es j] by (simp add: S_def)
  qed
  have untimed: "\<forall>i j tj. i < length es \<and> j < length es
         \<and> transaction_date (S ! i) = transaction_date (S ! j)
         \<and> (transaction_time (S ! i) = None \<or> transaction_time (S ! i) = Some [])
         \<and> transaction_time (S ! j) = Some tj \<and> tj \<noteq> [] \<and> tj < ''99:99'' \<longrightarrow> j < i"
  proof (intro allI impI)
    fix i j tj
    assume h: "i < length es \<and> j < length es
         \<and> transaction_date (S ! i) = transaction_date (S ! j)
         \<and> (transaction_time (S ! i) = None \<or> transaction_time (S ! i) = Some [])
         \<and> transaction_time (S ! j) = Some tj \<and> tj \<noteq> [] \<and> tj < ''99:99''"
    then have "sort_key_of (S ! j) < sort_key_of (S ! i)"
      by (auto simp: lex_less_iff key_fst key_snd)
    with h show "j < i" using key_less_pos[of i es j] by (simp add: S_def)
  qed
  have sentinel: "\<forall>h m. h < 24 \<and> m < 60 \<longrightarrow> fmt_02d h @ '':'' @ fmt_02d m < ''99:99''"
    using sentinel_greater by blast
  from perm asc undated dated timed untimed sentinel show ?thesis
    by (intro conjI)
qed

theorem sorted_entries_order_witness:
  "sorted_entries
     [entry_of (Some (2024, 1, 5)) (Some ''09:00'') None ''USD'',
      entry_of (Some (2024, 1, 5)) None None ''USD'',
      entry_of None (Some ''07:00'') None ''USD'',
      entry_of (Some (2024, 1, 5)) (Some ''08:00'') None ''USD''] =
     [entry_of (Some (2024, 1, 5)) (Some ''08:00'') None ''USD'',
      entry_of (Some (2024, 1, 5)) (Some ''09:00'') None ''USD'',
      entry_of (Some (2024, 1, 5)) None None ''USD'',
      entry_of None (Some ''07:00'') None ''USD'']
   \<and> (''08:00'' :: string) < ''09:00''
   \<and> (''09:00'' :: string) < ''99:99''
   \<and> ((2024, 1, 5) :: date) < (9999, 12, 31)
   \<and> (0 :: nat) < 1 \<and> (1 :: nat) < 2 \<and> (2 :: nat) < 3
   \<and> fmt_02d 23 @ '':'' @ fmt_02d 59 < ''99:99''"
proof -
  let ?A = "entry_of (Some (2024, 1, 5)) (Some ''09:00'') None ''USD''"
  let ?B = "entry_of (Some (2024, 1, 5)) None None ''USD''"
  let ?C = "entry_of None (Some ''07:00'') None ''USD''"
  let ?D = "entry_of (Some (2024, 1, 5)) (Some ''08:00'') None ''USD''"
  let ?es = "[?A, ?B, ?C, ?D]"
  have s: "sorted_entries ?es = [?D, ?A, ?B, ?C]"
    by (simp add: sorted_entries_def key_of_entry less_eq_prod_def date_max_def)
  have len: "length ?es = 4"
    by simp
  have nth: "sorted_entries ?es ! 0 = ?D" "sorted_entries ?es ! 1 = ?A"
    "sorted_entries ?es ! 2 = ?B" "sorted_entries ?es ! 3 = ?C"
    unfolding s by simp_all
  have fields:
    "transaction_date ?A = Some (2024, 1, 5)" "transaction_time ?A = Some ''09:00''"
    "transaction_date ?B = Some (2024, 1, 5)" "transaction_time ?B = None"
    "transaction_date ?C = None"
    "transaction_date ?D = Some (2024, 1, 5)" "transaction_time ?D = Some ''08:00''"
    by (simp_all add: entry_of_def)
  have t1: "(''08:00'' :: string) < ''09:00''" by simp
  have t2: "(''09:00'' :: string) < ''99:99''" by simp
  have d1: "((2024, 1, 5) :: date) < (9999, 12, 31)" by simp
  note order = sorted_entries_order [of ?es]
  from order len nth fields t1 have p01: "(0 :: nat) < 1"
    by simp
  from order len nth fields t2 have p12: "(1 :: nat) < 2"
    by simp
  from order len nth fields d1 have p23: "(2 :: nat) < 3"
    by simp
  from order have last: "fmt_02d 23 @ '':'' @ fmt_02d 59 < ''99:99''"
    by simp
  from s t1 t2 d1 p01 p12 p23 last show ?thesis
    by (intro conjI)
qed

text \<open>
  The claim as stated fails for the last date of the calendar: an entry dated
  9999-12-31 has the date key of an entry without a date, so the time decides, and the
  entry without a date comes first here.
\<close>

theorem max_date_not_before_undated:
  "sorted_entries [entry_of (Some (9999, 12, 31)) (Some ''09:00'') None ''USD'',
                   entry_of None (Some ''08:00'') None ''USD''] =
     [entry_of None (Some ''08:00'') None ''USD'',
      entry_of (Some (9999, 12, 31)) (Some ''09:00'') None ''USD'']"
  by (simp add: sorted_entries_def key_of_entry less_eq_prod_def date_max_def)

section \<open>The field normalizers\<close>

lemma try_formats_first:
  assumes "i < length fmts" and "strptime s (fmts ! i) = Inr dt"
    and "\<forall>j<i. isl (strptime s (fmts ! j))"
  shows "try_formats strptime s fmts = Some (date_part dt)"
  using assms
proof (induction fmts arbitrary: i)
  case Nil
  then show ?case by simp
next
  case (Cons f fs)
  show ?case
  proof (cases i)
    case 0
    with Cons.prems show ?thesis by simp
  next
    case (Suc k)
    with Cons.prems have "isl (strptime s f)" by auto
    moreover have "try_formats strptime s fs = Some (date_part dt)"
      using Cons.prems Suc by (intro Cons.IH[of k]) auto
    ultimately show ?thesis by (auto simp: isl_def)
  qed
qed

lemma try_formats_None:
  "try_formats strptime s fmts = None \<longleftrightarrow> list_all (\<lambda>fmt. isl (strptime s fmt)) fmts"
  by (induction fmts) (auto split: sum.splits)

lemma norm_date_unrolled:
  "norm_date fromisoformat strptime v =
     (if \<not> truthy v then None
      else case fromisoformat (py_str v) of
        Inr dt \<Rightarrow> Some (date_part dt)
      | Inl e0 \<Rightarrow>
       (case strptime (py_str v) ''%Y-%m-%d'' of
          Inr dt \<Rightarrow> Some (date_part dt)
        | Inl e1 \<Rightarrow>
         (case strptime (py_str v) ''%d/%m/%Y'' of
            Inr dt \<Rightarrow> Some (date_part dt)
          | Inl e2 \<Rightarrow>
           (case strptime (py_str v) ''%m/%d/%Y'' of
              Inr dt \<Rightarrow> Some (date_part dt)
            | Inl e3 \<Rightarrow>
             (case strptime (py_str v) ''%d-%m-%Y'' of
                Inr dt \<Rightarrow> Some (date_part dt)
              | Inl e4 \<Rightarrow>
               (case strptime (py_str v) ''%m-%d-%Y'' of
                  Inr dt \<Rightarrow> Some (date_part dt)
                | Inl e5 \<Rightarrow> None))))))"
  by (simp add: norm_date_def date_formats_def split: sum.splits)

lemma is_digit_digit_char: "is_digit (digit_char n)"
  by (simp add: is_digit_def of_char_digit_char less_Suc_eq_le)

lemma digit_val_digit_char: "digit_val (digit_char n) = n mod 10"
  by (simp add: digit_val_def of_char_digit_char)

lemma int_of_digits_fmt_02d: "n < 100 \<Longrightarrow> int_of_digits (fmt_02d n) = n"
  by (simp add: fmt_02d_small int_of_digits_def digit_val_digit_char)

lemma isdigit_fmt_02d: "n < 100 \<Longrightarrow> isdigit (fmt_02d n)"
  by (simp add: fmt_02d_small isdigit_def is_digit_digit_char)

lemma hhmm_shape:
  assumes "h < 24" "m < 60" and t: "t = fmt_02d h @ '':'' @ fmt_02d m"
  shows "length t = 5 \<and> t ! 2 = CHR '':'' \<and> take 2 t = fmt_02d h \<and> drop 3 t = fmt_02d m"
  using assms by (simp add: fmt_02d_small)

lemma take_2_all:
  assumes "2 \<le> length ps"
  shows "list_all P (take 2 ps) \<longleftrightarrow> P (ps ! 0) \<and> P (ps ! 1)"
proof -
  from assms obtain a b rest where "ps = a # b # rest"
    by (cases ps; cases "tl ps") auto
  then show ?thesis by (simp add: numeral_2_eq_2)
qed

lemma norm_time_eq:
  "norm_time py_isdigit py_int v =
     (let parts = split (CHR '':'') (strip (py_str v)) in
      if truthy v \<and> 2 \<le> length parts \<and> py_isdigit (parts ! 0) \<and> py_isdigit (parts ! 1)
      then (case py_int (parts ! 0) of
              Inl err \<Rightarrow> Inl err
            | Inr h \<Rightarrow>
               (case py_int (parts ! 1) of
                  Inl err \<Rightarrow> Inl err
                | Inr m \<Rightarrow> Inr (Some (fmt_02d (nat (h mod 24)) @ '':'' @
                                       fmt_02d (nat (m mod 60))))))
      else Inr None)"
  by (auto simp: norm_time_def Let_def take_2_all split: sum.splits)

lemma norm_time_range:
  assumes "norm_time py_isdigit py_int v = Inr (Some t)"
  shows "length t = 5 \<and> t ! 2 = CHR '':'' \<and> isdigit (take 2 t) \<and> isdigit (drop 3 t)
         \<and> int_of_digits (take 2 t) < 24 \<and> int_of_digits (drop 3 t) < 60"
proof -
  from assms obtain h m where t: "t = fmt_02d (nat (h mod 24)) @ '':'' @ fmt_02d (nat (m mod 60))"
    by (auto simp: norm_time_eq Let_def split: if_splits sum.splits)
  have h: "nat (h mod 24) < 24" and m: "nat (m mod 60) < 60" by simp_all
  from hhmm_shape[OF h m t] h m show ?thesis
    by (simp add: int_of_digits_fmt_02d isdigit_fmt_02d)
qed

text \<open>An exception of \<open>int\<close> leaves \<open>_norm_time\<close>.\<close>

lemma norm_time_int_raises:
  assumes "truthy v" and "2 \<le> length (split (CHR '':'') (strip (py_str v)))"
    and "py_isdigit (split (CHR '':'') (strip (py_str v)) ! 0)"
    and "py_isdigit (split (CHR '':'') (strip (py_str v)) ! 1)"
    and "py_int (split (CHR '':'') (strip (py_str v)) ! 0) = Inl err"
  shows "norm_time py_isdigit py_int v = Inl err"
  using assms by (simp add: norm_time_eq Let_def)

lemma int_ref_digits:
  "isdigit s \<Longrightarrow> length s \<le> 4300 \<Longrightarrow> int_ref s = Inr (int (int_of_digits s))"
  by (simp add: int_ref_def int_max_str_digits_def)

lemma nat_int_mod: "nat (int n mod 24) = n mod 24" "nat (int n mod 60) = n mod 60"
  by (simp_all add: nat_mod_distrib)

lemma split_replicate:
  "c \<noteq> sep \<Longrightarrow> split sep (replicate n c @ sep # rest) = replicate n c # split sep rest"
  by (induction n) auto

text \<open>So does a segment of 4301 digits, which \<open>isdigit\<close> accepts and \<open>int\<close> rejects.\<close>

lemma norm_time_too_many_digits:
  "norm_time isdigit int_ref (PyStr (replicate 4301 (CHR ''1'') @ '':00'')) = Inl ValueError"
proof -
  let ?s = "replicate 4301 (CHR ''1'') @ '':00''"
  have one: "\<not> is_space (CHR ''1'')" and zero: "\<not> is_space (CHR ''0'')"
    by (simp_all add: is_space_def)
  have front: "dropWhile is_space ?s = ?s"
    using one by (simp add: dropWhile_append3 numeral_eq_Suc)
  have rear: "dropWhile is_space (rev ?s) = rev ?s"
    using zero by simp
  have stripped: "strip ?s = ?s"
    by (simp only: strip_def front rear rev_rev_ident)
  have parts: "split (CHR '':'') ?s = [replicate 4301 (CHR ''1''), ''00'']"
    by (simp add: split_replicate)
  have d1: "isdigit (replicate 4301 (CHR ''1''))"
    by (simp add: isdigit_def is_digit_def list_all_iff)
  have d2: "isdigit ''00''"
    by (simp add: isdigit_def is_digit_def)
  have raises: "int_ref (replicate 4301 (CHR ''1'')) = Inl ValueError"
    by (simp add: int_ref_def int_max_str_digits_def)
  show ?thesis
    by (rule norm_time_int_raises) (simp_all add: stripped parts d1 d2 raises)
qed

lemma norm_date_iso:
  "truthy v \<Longrightarrow> fromisoformat (py_str v) = Inr dt \<Longrightarrow> norm_date fromisoformat strptime v = Some (date_part dt)"
  by (simp add: norm_date_def)

lemma norm_date_time_irrelevant:
  "norm_date (\<lambda>s. map_sum id (\<lambda>dt. DateTime (date_part dt) t') (fromisoformat s)) strptime v = norm_date fromisoformat strptime v"
  by (cases "fromisoformat (py_str v)") (simp_all add: norm_date_def)

lemma norm_float_eq:
  "norm_float float v =
     Inr (if v = PyNone then None
          else case float (remove_char (CHR '','') (py_str v)) of
                 Inl err \<Rightarrow> None
               | Inr x \<Rightarrow> Some x)"
  by (simp add: norm_float_def try_except_def Let_def split: sum.splits)

text \<open>
  C6. For every raw value, with any \<open>fromisoformat\<close> and \<open>strptime\<close>: the ISO parse is
  tried first, then the formats \<open>%Y-%m-%d\<close>, \<open>%d/%m/%Y\<close>, \<open>%m/%d/%Y\<close>,
  \<open>%d-%m-%Y\<close>, \<open>%m-%d-%Y\<close> in this order; the first one that parses gives the date;
  the result is absent exactly when the value is falsy (null, empty) or nothing parses.
  With the reference functions, \<open>"05/03/2024"\<close> is the 5th of March 2024, though the
  format \<open>%m/%d/%Y\<close> alone would read the 3rd of May.
\<close>

theorem norm_date_priority:
  "norm_date fromisoformat strptime v =
     (if \<not> truthy v then None
      else case fromisoformat (py_str v) of
        Inr dt \<Rightarrow> Some (date_part dt)
      | Inl e0 \<Rightarrow>
       (case strptime (py_str v) ''%Y-%m-%d'' of
          Inr dt \<Rightarrow> Some (date_part dt)
        | Inl e1 \<Rightarrow>
         (case strptime (py_str v) ''%d/%m/%Y'' of
            Inr dt \<Rightarrow> Some (date_part dt)
          | Inl e2 \<Rightarrow>
           (case strptime (py_str v) ''%m/%d/%Y'' of
              Inr dt \<Rightarrow> Some (date_part dt)
            | Inl e3 \<Rightarrow>
             (case strptime (py_str v) ''%d-%m-%Y'' of
                Inr dt \<Rightarrow> Some (date_part dt)
              | Inl e4 \<Rightarrow>
               (case strptime (py_str v) ''%m-%d-%Y'' of
                  Inr dt \<Rightarrow> Some (date_part dt)
                | Inl e5 \<Rightarrow> None))))))
   \<and> (\<forall>i dt. truthy v \<and> isl (fromisoformat (py_str v)) \<and> i < length date_formats
          \<and> strptime (py_str v) (date_formats ! i) = Inr dt
          \<and> (\<forall>j<i. isl (strptime (py_str v) (date_formats ! j)))
        \<longrightarrow> norm_date fromisoformat strptime v = Some (date_part dt))
   \<and> (norm_date fromisoformat strptime v = None \<longleftrightarrow>
        \<not> truthy v \<or> (isl (fromisoformat (py_str v))
                       \<and> list_all (\<lambda>fmt. isl (strptime (py_str v) fmt)) date_formats))
   \<and> norm_date fromisoformat_ref strptime_ref (PyStr ''05/03/2024'') = Some (2024, 3, 5)
   \<and> strptime_ref ''05/03/2024'' ''%m/%d/%Y'' = Inr (DateTime (2024, 5, 3) (0, 0, 0))"
proof (intro conjI allI impI)
  show "norm_date fromisoformat strptime v =
     (if \<not> truthy v then None
      else case fromisoformat (py_str v) of
        Inr dt \<Rightarrow> Some (date_part dt)
      | Inl e0 \<Rightarrow>
       (case strptime (py_str v) ''%Y-%m-%d'' of
          Inr dt \<Rightarrow> Some (date_part dt)
        | Inl e1 \<Rightarrow>
         (case strptime (py_str v) ''%d/%m/%Y'' of
            Inr dt \<Rightarrow> Some (date_part dt)
          | Inl e2 \<Rightarrow>
           (case strptime (py_str v) ''%m/%d/%Y'' of
              Inr dt \<Rightarrow> Some (date_part dt)
            | Inl e3 \<Rightarrow>
             (case strptime (py_str v) ''%d-%m-%Y'' of
                Inr dt \<Rightarrow> Some (date_part dt)
              | Inl e4 \<Rightarrow>
               (case strptime (py_str v) ''%m-%d-%Y'' of
                  Inr dt \<Rightarrow> Some (date_part dt)
                | Inl e5 \<Rightarrow> None))))))"
    by (rule norm_date_unrolled)
next
  fix i dt
  assume h: "truthy v \<and> isl (fromisoformat (py_str v)) \<and> i < length date_formats
          \<and> strptime (py_str v) (date_formats ! i) = Inr dt
          \<and> (\<forall>j<i. isl (strptime (py_str v) (date_formats ! j)))"
  then have "try_formats strptime (py_str v) date_formats = Some (date_part dt)"
    by (intro try_formats_first[of i]) auto
  with h show "norm_date fromisoformat strptime v = Some (date_part dt)"
    by (auto simp: norm_date_def isl_def)
next
  show "norm_date fromisoformat strptime v = None \<longleftrightarrow>
        \<not> truthy v \<or> (isl (fromisoformat (py_str v))
                       \<and> list_all (\<lambda>fmt. isl (strptime (py_str v) fmt)) date_formats)"
    by (cases "fromisoformat (py_str v)") (simp_all add: norm_date_def try_formats_None)
next
  show "norm_date fromisoformat_ref strptime_ref (PyStr ''05/03/2024'') = Some (2024, 3, 5)"
    by code_simp
next
  show "strptime_ref ''05/03/2024'' ''%m/%d/%Y'' = Inr (DateTime (2024, 5, 3) (0, 0, 0))"
    by code_simp
qed

theorem norm_date_priority_witness:
  "truthy (PyStr ''05/03/2024'')
   \<and> isl (fromisoformat_ref ''05/03/2024'')
   \<and> isl (strptime_ref ''05/03/2024'' (date_formats ! 0))
   \<and> strptime_ref ''05/03/2024'' (date_formats ! 1) = Inr (DateTime (2024, 3, 5) (0, 0, 0))
   \<and> norm_date fromisoformat_ref strptime_ref (PyStr ''05/03/2024'') = Some (2024, 3, 5)"
proof -
  have a: "truthy (PyStr ''05/03/2024'')" by simp
  have b: "isl (fromisoformat_ref ''05/03/2024'')" by code_simp
  have c: "isl (strptime_ref ''05/03/2024'' (date_formats ! 0))" by code_simp
  have d: "strptime_ref ''05/03/2024'' (date_formats ! 1) = Inr (DateTime (2024, 3, 5) (0, 0, 0))"
    by code_simp
  have len: "1 < length date_formats" by (simp add: date_formats_def)
  have "norm_date fromisoformat_ref strptime_ref (PyStr ''05/03/2024'')
          = Some (date_part (DateTime (2024, 3, 5) (0 :: nat, 0 :: nat, 0 :: nat)))"
    using norm_date_priority [of fromisoformat_ref strptime_ref "PyStr ''05/03/2024''"]
      a b c d len
    by (elim conjE allE[of _ 1] allE[of _ "DateTime (2024, 3, 5) (0, 0, 0)"]) auto
  with a b c d show ?thesis by simp
qed

text \<open>
  C7, as the code has it, with any \<open>isdigit\<close> and \<open>int\<close>. The text of the value is
  trimmed first; its segments are those between the colons. A value that is falsy, or
  has fewer than two segments, or whose first or second segment \<open>isdigit\<close> does not
  accept, gives absent. A truthy value whose first two segments are accepted by
  \<open>isdigit\<close> and by \<open>int\<close> gives the hour modulo 24 and the minute modulo 60, each on
  two digits, with a colon between; so does, with the reference functions, every value
  whose first two segments are of at most 4300 digits and of nothing else. A result
  always reads back as an hour below 24 and a minute below 60. \<open>"25:61"\<close> gives
  \<open>"01:01"\<close>.
\<close>

theorem norm_time_wrap:
  fixes v :: py_value and py_isdigit :: "string \<Rightarrow> bool"
    and py_int :: "string \<Rightarrow> py_error + int"
  defines "segs \<equiv> split (CHR '':'') (strip (py_str v))"
  shows
  "(\<not> (truthy v \<and> 2 \<le> length segs \<and> py_isdigit (segs ! 0) \<and> py_isdigit (segs ! 1))
      \<longrightarrow> norm_time py_isdigit py_int v = Inr None)
   \<and> (\<forall>h m. truthy v \<and> 2 \<le> length segs \<and> py_isdigit (segs ! 0) \<and> py_isdigit (segs ! 1)
          \<and> py_int (segs ! 0) = Inr h \<and> py_int (segs ! 1) = Inr m
        \<longrightarrow> norm_time py_isdigit py_int v =
              Inr (Some (fmt_02d (nat (h mod 24)) @ '':'' @ fmt_02d (nat (m mod 60)))))
   \<and> (truthy v \<and> 2 \<le> length segs \<and> isdigit (segs ! 0) \<and> isdigit (segs ! 1)
        \<and> length (segs ! 0) \<le> 4300 \<and> length (segs ! 1) \<le> 4300
        \<longrightarrow> norm_time isdigit int_ref v =
              Inr (Some (fmt_02d (int_of_digits (segs ! 0) mod 24) @ '':'' @
                         fmt_02d (int_of_digits (segs ! 1) mod 60))))
   \<and> (\<forall>t. norm_time py_isdigit py_int v = Inr (Some t) \<longrightarrow>
         length t = 5 \<and> t ! 2 = CHR '':'' \<and> isdigit (take 2 t) \<and> isdigit (drop 3 t)
         \<and> int_of_digits (take 2 t) < 24 \<and> int_of_digits (drop 3 t) < 60)
   \<and> norm_time isdigit int_ref (PyStr ''25:61'') = Inr (Some ''01:01'')"
proof -
  have absent:
    "\<not> (truthy v \<and> 2 \<le> length segs \<and> py_isdigit (segs ! 0) \<and> py_isdigit (segs ! 1))
      \<longrightarrow> norm_time py_isdigit py_int v = Inr None"
    by (auto simp: norm_time_eq Let_def segs_def)
  have wraps:
    "\<forall>h m. truthy v \<and> 2 \<le> length segs \<and> py_isdigit (segs ! 0) \<and> py_isdigit (segs ! 1)
          \<and> py_int (segs ! 0) = Inr h \<and> py_int (segs ! 1) = Inr m
        \<longrightarrow> norm_time py_isdigit py_int v =
              Inr (Some (fmt_02d (nat (h mod 24)) @ '':'' @ fmt_02d (nat (m mod 60))))"
    by (auto simp: norm_time_eq Let_def segs_def)
  have ref: "truthy v \<and> 2 \<le> length segs \<and> isdigit (segs ! 0) \<and> isdigit (segs ! 1)
        \<and> length (segs ! 0) \<le> 4300 \<and> length (segs ! 1) \<le> 4300
        \<longrightarrow> norm_time isdigit int_ref v =
              Inr (Some (fmt_02d (int_of_digits (segs ! 0) mod 24) @ '':'' @
                         fmt_02d (int_of_digits (segs ! 1) mod 60)))"
    by (auto simp: norm_time_eq Let_def segs_def int_ref_digits nat_int_mod)
  have range: "\<forall>t. norm_time py_isdigit py_int v = Inr (Some t) \<longrightarrow>
         length t = 5 \<and> t ! 2 = CHR '':'' \<and> isdigit (take 2 t) \<and> isdigit (drop 3 t)
         \<and> int_of_digits (take 2 t) < 24 \<and> int_of_digits (drop 3 t) < 60"
    using norm_time_range by blast
  have example: "norm_time isdigit int_ref (PyStr ''25:61'') = Inr (Some ''01:01'')"
    by code_simp
  from absent wraps ref range example show ?thesis
    by (intro conjI)
qed

theorem norm_time_wrap_witness:
  "truthy (PyStr ''7:5:9'')
   \<and> split (CHR '':'') (strip (py_str (PyStr ''7:5:9''))) = [''7'', ''5'', ''9'']
   \<and> isdigit ''7'' \<and> isdigit ''5''
   \<and> int_ref ''7'' = Inr 7 \<and> int_ref ''5'' = Inr 5
   \<and> norm_time isdigit int_ref (PyStr ''7:5:9'') = Inr (Some ''07:05'')
   \<and> int_of_digits (take 2 ''07:05'') < 24 \<and> int_of_digits (drop 3 ''07:05'') < 60
   \<and> norm_time isdigit int_ref (PyStr ''noon'') = Inr None"
proof -
  have a: "truthy (PyStr ''7:5:9'')" by simp
  have b: "split (CHR '':'') (strip (py_str (PyStr ''7:5:9''))) = [''7'', ''5'', ''9'']"
    by code_simp
  have c: "isdigit ''7''" "isdigit ''5''" by code_simp+
  have d: "int_ref ''7'' = Inr 7" "int_ref ''5'' = Inr 5" by code_simp+
  have f: "fmt_02d (nat (7 mod 24)) @ '':'' @ fmt_02d (nat (5 mod 60)) = ''07:05''"
    by code_simp
  have g: "\<not> (truthy (PyStr ''noon'')
              \<and> 2 \<le> length (split (CHR '':'') (strip (py_str (PyStr ''noon''))))
              \<and> isdigit (split (CHR '':'') (strip (py_str (PyStr ''noon''))) ! 0)
              \<and> isdigit (split (CHR '':'') (strip (py_str (PyStr ''noon''))) ! 1))"
    by code_simp
  from norm_time_wrap [of "PyStr ''7:5:9''" isdigit int_ref] a b c d
  have e: "norm_time isdigit int_ref (PyStr ''7:5:9'') =
             Inr (Some (fmt_02d (nat (7 mod 24)) @ '':'' @ fmt_02d (nat (5 mod 60))))"
    by (elim conjE allE[of _ 7] allE[of _ 5]) simp
  then have e': "norm_time isdigit int_ref (PyStr ''7:5:9'') = Inr (Some ''07:05'')"
    by (simp only: f)
  from norm_time_wrap [of "PyStr ''7:5:9''" isdigit int_ref] e'
  have r: "int_of_digits (take 2 ''07:05'') < 24 \<and> int_of_digits (drop 3 ''07:05'') < 60"
    by blast
  from norm_time_wrap [of "PyStr ''noon''" isdigit int_ref] g
  have n: "norm_time isdigit int_ref (PyStr ''noon'') = Inr None"
    by blast
  from a b c d e' r n show ?thesis by (intro conjI) simp_all
qed

text \<open>
  The claim as stated fails on a value with a leading space: the first segment of the
  raw text \<open>" 25:61"\<close> is not of digits only, yet the result is \<open>"01:01"\<close>, not absent.
\<close>

theorem norm_time_trims_first:
  "norm_time isdigit int_ref (PyStr '' 25:61'') = Inr (Some ''01:01'')
   \<and> \<not> isdigit (split (CHR '':'') '' 25:61'' ! 0)"
  by code_simp

text \<open>
  C8, as the code has it. A falsy value (null, empty) gives \<open>"USD"\<close>. Otherwise the text
  is upper-cased and trimmed first: when one character is left the result is \<open>"USD"\<close>,
  for \<open>"$"\<close> and for any other character; when two characters or more are left they
  are the code, whatever their number.
\<close>

theorem norm_currency_rules:
  "(\<not> truthy v \<longrightarrow> norm_currency v = ''USD'')
   \<and> (truthy v \<and> length (strip (upper (py_str v))) = 1 \<longrightarrow> norm_currency v = ''USD'')
   \<and> (truthy v \<and> 2 \<le> length (strip (upper (py_str v)))
        \<longrightarrow> norm_currency v = strip (upper (py_str v)))
   \<and> norm_currency PyNone = ''USD''
   \<and> norm_currency (PyStr []) = ''USD''
   \<and> norm_currency (PyStr ''$'') = ''USD''"
proof -
  have "norm_currency (PyStr ''$'') = ''USD''" by code_simp
  then show ?thesis
    by (auto simp: norm_currency_def Let_def currency_symbols_def split: option.splits if_splits)
qed

theorem norm_currency_rules_witness:
  "norm_currency (PyOther False ''0'') = ''USD''
   \<and> norm_currency (PyStr ''x'') = ''USD''
   \<and> norm_currency (PyStr ''mxn '') = ''MXN''"
proof -
  have a: "\<not> truthy (PyOther False ''0'')" by simp
  have b: "truthy (PyStr ''x'') \<and> length (strip (upper (py_str (PyStr ''x'')))) = 1" by code_simp
  have c: "truthy (PyStr ''mxn '') \<and> 2 \<le> length (strip (upper (py_str (PyStr ''mxn ''))))"
    by code_simp
  have d: "strip (upper (py_str (PyStr ''mxn ''))) = ''MXN''" by code_simp
  from norm_currency_rules [of "PyOther False ''0''"] a
  have 1: "norm_currency (PyOther False ''0'') = ''USD''" by blast
  from norm_currency_rules [of "PyStr ''x''"] b
  have 2: "norm_currency (PyStr ''x'') = ''USD''" by blast
  from norm_currency_rules [of "PyStr ''mxn ''"] c d
  have 3: "norm_currency (PyStr ''mxn '') = ''MXN''" by metis
  from 1 2 3 show ?thesis by blast
qed

text \<open>
  The claim as stated fails on a longer input that trims to one character: \<open>" a "\<close> has
  three characters and its upper-cased, trimmed text is \<open>"A"\<close>, yet the result is
  \<open>"USD"\<close>.
\<close>

theorem norm_currency_length_after_trim:
  "length '' a '' = 3 \<and> strip (upper '' a '') = ''A'' \<and> norm_currency (PyStr '' a '') = ''USD''"
  by code_simp

text \<open>
  C9. For every raw value and any \<open>float\<close>: the result is never an exception; it is
  absent for \<open>None\<close> and when \<open>float\<close> raises, and otherwise what \<open>float\<close> returns on
  the text without its commas. With the reference function, \<open>"1,234.56"\<close> gives 1234.56.
\<close>

theorem norm_float_never_raises:
  "norm_float float v =
     Inr (if v = PyNone then None
          else case float (remove_char (CHR '','') (py_str v)) of
                 Inl err \<Rightarrow> None
               | Inr x \<Rightarrow> Some x)
   \<and> (\<exists>r. norm_float float v = Inr r)
   \<and> CHR '','' \<notin> set (remove_char (CHR '','') (py_str v))
   \<and> remove_char (CHR '','') ''1,234.56'' = ''1234.56''
   \<and> norm_float float_ref (PyStr ''1,234.56'') = Inr (Some 1234.56)
   \<and> norm_float float_ref (PyStr ''n/a'') = Inr None"
proof -
  have f: "float_ref ''1234.56'' = Inr 1234.56"
    by (simp add: float_ref_def is_float_space_def decimal_value_def isdigit_def
          is_digit_def int_of_digits_def digit_val_def Let_def)
  have g: "float_ref ''n/a'' = Inl ValueError"
    by (simp add: float_ref_def is_float_space_def decimal_value_def isdigit_def
          is_digit_def Let_def)
  show ?thesis
    by (simp add: norm_float_eq remove_char_def f g)
qed

theorem norm_float_never_raises_witness:
  "norm_float float_ref (PyOther True ''12.5'') = Inr (Some 12.5)"
proof -
  have f: "float_ref ''12.5'' = Inr 12.5"
    by (simp add: float_ref_def is_float_space_def decimal_value_def isdigit_def
          is_digit_def int_of_digits_def digit_val_def Let_def)
  from norm_float_never_raises [of float_ref "PyOther True ''12.5''"] f
  show ?thesis by (simp add: remove_char_def)
qed

text \<open>
  C10. When \<open>fromisoformat\<close> accepts the text of a truthy value, the result is the date
  of the parsed \<open>datetime\<close>, and the time of day plays no part: replacing it by any
  other leaves the result unchanged. With the reference function,
  \<open>"2024-03-05T14:30:00"\<close> parses to 14:30:00 on the 5th of March 2024 and the result is
  that date.
\<close>

theorem norm_date_accepts_datetime:
  "(truthy v \<and> fromisoformat (py_str v) = Inr dt
      \<longrightarrow> norm_date fromisoformat strptime v = Some (date_part dt))
   \<and> norm_date (\<lambda>s. map_sum id (\<lambda>dt. DateTime (date_part dt) t') (fromisoformat s)) strptime v
       = norm_date fromisoformat strptime v
   \<and> fromisoformat_ref ''2024-03-05T14:30:00'' = Inr (DateTime (2024, 3, 5) (14, 30, 0))
   \<and> norm_date fromisoformat_ref strptime_ref (PyStr ''2024-03-05T14:30:00'') = Some (2024, 3, 5)"
proof (intro conjI impI)
  assume "truthy v \<and> fromisoformat (py_str v) = Inr dt"
  then show "norm_date fromisoformat strptime v = Some (date_part dt)"
    by (simp add: norm_date_iso)
next
  show "norm_date (\<lambda>s. map_sum id (\<lambda>dt. DateTime (date_part dt) t') (fromisoformat s)) strptime v
       = norm_date fromisoformat strptime v"
    by (rule norm_date_time_irrelevant)
next
  show "fromisoformat_ref ''2024-03-05T14:30:00'' = Inr (DateTime (2024, 3, 5) (14, 30, 0))"
    by code_simp
next
  show "norm_date fromisoformat_ref strptime_ref (PyStr ''2024-03-05T14:30:00'') = Some (2024, 3, 5)"
    by code_simp
qed

theorem norm_date_accepts_datetime_witness:
  "truthy (PyStr ''2024-12-31 23:59'')
   \<and> fromisoformat_ref ''2024-12-31 23:59'' = Inr (DateTime (2024, 12, 31) (23, 59, 0))
   \<and> norm_date fromisoformat_ref (\<lambda>s fmt. Inl ValueError) (PyStr ''2024-12-31 23:59'')
       = Some (2024, 12, 31)"
proof -
  have a: "truthy (PyStr ''2024-12-31 23:59'')" by simp
  have b: "fromisoformat_ref ''2024-12-31 23:59'' = Inr (DateTime (2024, 12, 31) (23, 59, 0))"
    by code_simp
  from norm_date_accepts_datetime
         [of "PyStr ''2024-12-31 23:59''" fromisoformat_ref "DateTime (2024, 12, 31) (23, 59, 0)"
             "\<lambda>s fmt. Inl ValueError"] a b
  show ?thesis by simp
qed

end
